theory Spec2Isabelle
  imports Main
begin

section \<open>Strings and the sanitizers of the form validator\<close>

text \<open>
  A JavaScript string is modelled as a \<^typ>\<open>string\<close>; a \<^typ>\<open>char\<close> stands for a
  code unit below 256. The sanitizers and validators of \<^verbatim>\<open>express-validator\<close>
  (\<^verbatim>\<open>trim\<close>, \<^verbatim>\<open>escape\<close>, \<^verbatim>\<open>isLength\<close>, \<^verbatim>\<open>matches\<close>) are
  library code that the routes call; they are written out here as the library documents
  them. \<^verbatim>\<open>isEmail\<close>, \<^verbatim>\<open>normalizeEmail\<close> and the \<^verbatim>\<open>bcryptjs\<close> functions
  stay parameters (record \<open>libs\<close> below).
\<close>

definition is_space :: "char \<Rightarrow> bool" where
  \<comment> \<open>the characters of the regular expression class \<^verbatim>\<open>\s\<close> below code 256\<close>
  "is_space c = (c \<in> set [CHR 0x09, CHR 0x0A, CHR 0x0B, CHR 0x0C, CHR 0x0D, CHR 0x20, CHR 0xA0])"

definition is_line_terminator :: "char \<Rightarrow> bool" where
  "is_line_terminator c = (c \<in> set [CHR 0x0A, CHR 0x0D])"

definition is_digit :: "char \<Rightarrow> bool" where
  "is_digit c = (c \<in> set ''0123456789'')"

definition is_lower :: "char \<Rightarrow> bool" where
  "is_lower c = (c \<in> set ''abcdefghijklmnopqrstuvwxyz'')"

definition is_upper :: "char \<Rightarrow> bool" where
  "is_upper c = (c \<in> set ''ABCDEFGHIJKLMNOPQRSTUVWXYZ'')"

definition trim :: "string \<Rightarrow> string" where
  \<comment> \<open>\<^verbatim>\<open>trim()\<close> with no character list: whitespace is removed at both ends\<close>
  "trim s = rev (dropWhile is_space (rev (dropWhile is_space s)))"

fun escape_char :: "char \<Rightarrow> string" where
  "escape_char c =
     (if c = CHR ''&'' then ''&amp;''
      else if c = CHR 0x22 then ''&quot;''
      else if c = CHR 0x27 then ''&#x27;''
      else if c = CHR ''<'' then ''&lt;''
      else if c = CHR ''>'' then ''&gt;''
      else if c = CHR ''/'' then ''&#x2F;''
      else if c = CHR 0x5C then ''&#x5C;''
      else if c = CHR 0x60 then ''&#96;''
      else [c])"

definition escape :: "string \<Rightarrow> string" where
  \<comment> \<open>\<^verbatim>\<open>escape()\<close>: the library replaces \<^verbatim>\<open>&\<close> first and then the seven other
      characters, none of whose replacements contains a character replaced later, so the
      result is the character-wise replacement\<close>
  "escape s = concat (map escape_char s)"

definition html_special :: "char \<Rightarrow> bool" where
  "html_special c =
     (c \<in> set [CHR ''&'', CHR 0x22, CHR 0x27, CHR ''<'', CHR ''>'', CHR ''/'', CHR 0x5C, CHR 0x60])"

definition toString :: "string option \<Rightarrow> string" where
  \<comment> \<open>the validator turns a missing field into the empty string before it checks it\<close>
  "toString v = (case v of None \<Rightarrow> [] | Some s \<Rightarrow> s)"

definition isLength :: "nat \<Rightarrow> nat option \<Rightarrow> string \<Rightarrow> bool" where
  "isLength lo hi s =
     (lo \<le> length s \<and> (case hi of None \<Rightarrow> True | Some h \<Rightarrow> length s \<le> h))"

definition matches_letters_spaces :: "string \<Rightarrow> bool" where
  \<comment> \<open>\<^verbatim>\<open>/^[a-zA-Z\s]+$/\<close>\<close>
  "matches_letters_spaces s =
     (s \<noteq> [] \<and> list_all (\<lambda>c. is_lower c \<or> is_upper c \<or> is_space c) s)"

definition matches_word :: "string \<Rightarrow> bool" where
  \<comment> \<open>\<^verbatim>\<open>/^[a-zA-Z0-9_]+$/\<close>\<close>
  "matches_word s =
     (s \<noteq> [] \<and> list_all (\<lambda>c. is_lower c \<or> is_upper c \<or> is_digit c \<or> c = CHR ''_'') s)"

definition matches_password :: "string \<Rightarrow> bool" where
  \<comment> \<open>\<^verbatim>\<open>/^(?=.*[a-z])(?=.*[A-Z])(?=.*\d)/\<close>: the dot stops at a line terminator, so
      the three characters are looked for on the first line\<close>
  "matches_password s =
     (let line = takeWhile (\<lambda>c. \<not> is_line_terminator c) s
      in list_ex is_lower line \<and> list_ex is_upper line \<and> list_ex is_digit line)"

fun join_msgs :: "string list \<Rightarrow> string" where
  \<comment> \<open>\<^verbatim>\<open>errorMessages.join(". ")\<close>\<close>
  "join_msgs [] = []"
| "join_msgs [m] = m"
| "join_msgs (m # ms) = m @ ''. '' @ join_msgs ms"

definition digit_value :: "char \<Rightarrow> int" where
  "digit_value c = int (length (takeWhile (\<lambda>d. d \<noteq> c) ''0123456789''))"

definition digits_value :: "string \<Rightarrow> int" where
  "digits_value ds = foldl (\<lambda>a c. 10 * a + digit_value c) 0 ds"

text \<open>
  The result of \<^verbatim>\<open>parseInt\<close> is a double. Up to \<^verbatim>\<open>Number.MAX_SAFE_INTEGER\<close> it is
  the integer that was read; beyond, it is a rounded value or an infinity, which the model
  does not compute: \<open>Unsafe\<close> stands for such a number, of which only \<^verbatim>\<open>isNaN\<close> being
  false is used.
\<close>

datatype jsnumber = NaN | Num int | Unsafe

definition parseInt :: "string \<Rightarrow> jsnumber" where
  \<comment> \<open>\<^verbatim>\<open>parseInt(s, 10)\<close>: leading whitespace, an optional sign, then the longest run of
      digits; whatever follows the digits is ignored\<close>
  "parseInt s =
     (let t = dropWhile is_space s;
          neg = (case t of [] \<Rightarrow> False | c # _ \<Rightarrow> c = CHR ''-'');
          r = (case t of [] \<Rightarrow> [] | c # r \<Rightarrow> if c = CHR ''-'' \<or> c = CHR ''+'' then r else t);
          ds = takeWhile is_digit r
      in if ds = [] then NaN
         else if 9007199254740991 < digits_value ds then Unsafe
         else Num (if neg then - digits_value ds else digits_value ds))"

section \<open>The store\<close>

record user =
  user_id :: int
  first_name :: string
  last_name :: string
  username :: string
  email :: string
  password :: string
  is_admin :: bool
  is_member :: bool

record message =
  message_id :: int
  title :: string
  content :: string
  author_id :: int

text \<open>
  The tables behind the \<^verbatim>\<open>prisma\<close> client, in row order, with the two identifier
  sequences. The creation timestamp of a message is set by the database and is left out.
\<close>

record store =
  users :: "user list"
  messages :: "message list"
  user_seq :: int
  message_seq :: int

datatype js_error =
  StoreUnavailable      \<comment> \<open>the client rejects because the database cannot be reached\<close>
| RecordNotFound        \<comment> \<open>update or delete of a row that does not exist\<close>
| UniqueConstraint
| ForeignKeyConstraint

text \<open>
  Every call of the client takes a flag \<open>down\<close>: the call is rejected when the store is
  not reachable at that moment. A request passes \<open>fault k\<close> to its \<open>k\<close>-th call, so that
  every \<^verbatim>\<open>catch\<close> block of the routes is a branch of the model.
\<close>

definition user_findUnique :: "bool \<Rightarrow> store \<Rightarrow> int \<Rightarrow> js_error + user option" where
  "user_findUnique down s i =
     (if down then Inl StoreUnavailable
      else Inr (find (\<lambda>u. user_id u = i) (users s)))"

definition user_findFirst :: "bool \<Rightarrow> store \<Rightarrow> string \<Rightarrow> string \<Rightarrow> js_error + user option" where
  \<comment> \<open>\<^verbatim>\<open>findFirst({ where: { OR: [{ username: un }, { email: em }] } })\<close>\<close>
  "user_findFirst down s un em =
     (if down then Inl StoreUnavailable
      else Inr (find (\<lambda>u. username u = un \<or> email u = em) (users s)))"

text \<open>
  Modelled from the spec: the schema is not among the sources; the spec gives the users
  table a unique username and a unique email, and a message an author that names an
  existing user.
\<close>

definition user_create ::
  "bool \<Rightarrow> store \<Rightarrow> string \<Rightarrow> string \<Rightarrow> string \<Rightarrow> string \<Rightarrow> string \<Rightarrow> bool \<Rightarrow> bool \<Rightarrow> js_error + store" where
  "user_create down s fn ln un em pw adm mem =
     (if down then Inl StoreUnavailable
      else if list_ex (\<lambda>u. username u = un \<or> email u = em) (users s) then Inl UniqueConstraint
      else Inr (s\<lparr>users := users s @
                   [\<lparr>user_id = user_seq s + 1, first_name = fn, last_name = ln, username = un,
                     email = em, password = pw, is_admin = adm, is_member = mem\<rparr>],
                 user_seq := user_seq s + 1\<rparr>))"

definition user_update_member :: "bool \<Rightarrow> store \<Rightarrow> int \<Rightarrow> js_error + store" where
  \<comment> \<open>\<^verbatim>\<open>update({ where: { id: i }, data: { is_member: true } })\<close>\<close>
  "user_update_member down s i =
     (if down then Inl StoreUnavailable
      else if list_ex (\<lambda>u. user_id u = i) (users s)
      then Inr (s\<lparr>users := map (\<lambda>u. if user_id u = i then u\<lparr>is_member := True\<rparr> else u) (users s)\<rparr>)
      else Inl RecordNotFound)"

definition message_create :: "bool \<Rightarrow> store \<Rightarrow> string \<Rightarrow> string \<Rightarrow> int \<Rightarrow> js_error + store" where
  "message_create down s t c a =
     (if down then Inl StoreUnavailable
      else if list_ex (\<lambda>u. user_id u = a) (users s)
      then Inr (s\<lparr>messages := messages s @
                   [\<lparr>message_id = message_seq s + 1, title = t, content = c, author_id = a\<rparr>],
                 message_seq := message_seq s + 1\<rparr>)
      else Inl ForeignKeyConstraint)"

definition message_delete :: "bool \<Rightarrow> store \<Rightarrow> int \<Rightarrow> js_error + store" where
  \<comment> \<open>\<^verbatim>\<open>delete({ where: { id: i } })\<close> rejects when no row has the identifier\<close>
  "message_delete down s i =
     (if down then Inl StoreUnavailable
      else if list_ex (\<lambda>m. message_id m = i) (messages s)
      then Inr (s\<lparr>messages := filter (\<lambda>m. message_id m \<noteq> i) (messages s)\<rparr>)
      else Inl RecordNotFound)"

section \<open>Requests, responses and configuration\<close>

datatype jsval = JStr string | JBool bool | JNull | JUndefined | JError js_error | JEmptyObject

datatype response =
  Redirect string                                   \<comment> \<open>\<^verbatim>\<open>res.redirect(path)\<close>\<close>
| Render nat string "(string \<times> jsval) list"     \<comment> \<open>status, view and the options of \<^verbatim>\<open>res.render\<close>\<close>
| Send nat string                                   \<comment> \<open>\<^verbatim>\<open>res.status(n).send(text)\<close>\<close>

datatype flashval = Msg string | Form "(string \<times> jsval) list"

text \<open>
  What one request does: its response, the calls of \<^verbatim>\<open>req.flash(key, value)\<close> it makes
  in order, the user identifier its session holds afterwards, and the store afterwards.
  The templates are not among the sources: a rendered page is its view name with the
  options passed to \<^verbatim>\<open>res.render\<close>, and how a later page shows the flashed entries
  (the middleware that moves them into \<^verbatim>\<open>res.locals\<close>) is left out.
\<close>

record result =
  resp :: response
  flash :: "(string \<times> flashval) list"
  session :: "int option"
  db :: store

text \<open>The variables of \<^verbatim>\<open>process.env\<close> the routes read; \<open>None\<close> is an unset variable.\<close>

record env =
  MEMBER_SECRET_CODE :: "string option"
  ADMIN_SECRET_CODE :: "string option"
  NODE_ENV :: "string option"

record libs =
  isEmail :: "string \<Rightarrow> bool"
  normalizeEmail :: "string \<Rightarrow> string option"    \<comment> \<open>\<open>None\<close> is the library's \<^verbatim>\<open>false\<close>\<close>
  bcrypt_hash :: "string \<Rightarrow> string"
  bcrypt_compare :: "string \<Rightarrow> string \<Rightarrow> bool"

text \<open>
  The body of a form post: every field is absent (\<^verbatim>\<open>undefined\<close>) or a string.
\<close>

type_synonym body = "string \<Rightarrow> string option"

definition falsy :: "string option \<Rightarrow> bool" where
  "falsy v = (case v of None \<Rightarrow> True | Some s \<Rightarrow> s = [])"

definition optval :: "string option \<Rightarrow> jsval" where
  "optval v = (case v of None \<Rightarrow> JUndefined | Some s \<Rightarrow> JStr s)"

definition reply :: "store \<Rightarrow> int option \<Rightarrow> (string \<times> flashval) list \<Rightarrow> response \<Rightarrow> result" where
  "reply s sess fl r = \<lparr>resp = r, flash = fl, session = sess, db = s\<rparr>"

section \<open>Session resolution and the gates\<close>

definition serializeUser :: "user \<Rightarrow> int" where
  "serializeUser u = user_id u"

definition deserializeUser :: "bool \<Rightarrow> store \<Rightarrow> int \<Rightarrow> js_error + user option" where
  "deserializeUser down s i = user_findUnique down s i"

definition passport_session ::
  "(nat \<Rightarrow> bool) \<Rightarrow> store \<Rightarrow> int option \<Rightarrow> js_error + (user option \<times> int option)" where
  \<comment> \<open>the session strategy: no identifier in the session means no principal; an identifier
      that resolves to no user is dropped from the session\<close>
  "passport_session fault s sess =
     (case sess of
        None \<Rightarrow> Inr (None, None)
      | Some i \<Rightarrow>
          (case deserializeUser (fault 0) s i of
             Inl e \<Rightarrow> Inl e
           | Inr None \<Rightarrow> Inr (None, None)
           | Inr (Some u) \<Rightarrow> Inr (Some u, Some i)))"

definition error_handler :: "env \<Rightarrow> js_error \<Rightarrow> response" where
  "error_handler E err =
     Render 500 ''error''
       [(''title'', JStr ''Error''), (''message'', JStr ''Something went wrong!''),
        (''error'', if NODE_ENV E = Some ''production'' then JEmptyObject else JError err)]"

definition app ::
  "env \<Rightarrow> (nat \<Rightarrow> bool) \<Rightarrow> store \<Rightarrow> int option \<Rightarrow> (user option \<Rightarrow> int option \<Rightarrow> result) \<Rightarrow> result" where
  \<comment> \<open>the middleware in front of every route: the principal is resolved first, and an error
      there goes to the error-handling middleware\<close>
  "app E fault s sess route =
     (case passport_session fault s sess of
        Inl e \<Rightarrow> reply s sess [] (error_handler E e)
      | Inr (ru, sess') \<Rightarrow> route ru sess')"

definition ensureLoggedIn :: "store \<Rightarrow> int option \<Rightarrow> user option \<Rightarrow> (user \<Rightarrow> result) \<Rightarrow> result" where
  "ensureLoggedIn s sess ru next =
     (case ru of
        None \<Rightarrow> reply s sess [] (Redirect ''/login'')
      | Some u \<Rightarrow> next u)"

section \<open>Login\<close>

datatype verified = VError js_error | VFail string | VOk user

definition verify :: "libs \<Rightarrow> bool \<Rightarrow> store \<Rightarrow> string \<Rightarrow> string \<Rightarrow> verified" where
  \<comment> \<open>the verify callback of the \<^verbatim>\<open>LocalStrategy\<close>\<close>
  "verify L down s ident pw =
     (case user_findFirst down s ident ident of
        Inl e \<Rightarrow> VError e
      | Inr None \<Rightarrow> VFail ''User not found''
      | Inr (Some u) \<Rightarrow>
          if bcrypt_compare L pw (password u) then VOk u else VFail ''Invalid password'')"

definition local_authenticate ::
  "libs \<Rightarrow> bool \<Rightarrow> store \<Rightarrow> string option \<Rightarrow> string option \<Rightarrow> verified" where
  \<comment> \<open>the strategy reads the two fields of the body and refuses a missing one itself; the
      login route calls it only with both fields present\<close>
  "local_authenticate L down s un pw =
     (if falsy un \<or> falsy pw then VFail ''Missing credentials''
      else verify L down s (toString un) (toString pw))"

definition login_errors :: "body \<Rightarrow> string list" where
  "login_errors b =
     (if isLength 1 None (trim (toString (b ''username''))) then []
      else [''Username or email is required'']) @
     (if isLength 1 None (toString (b ''password'')) then [] else [''Password is required''])"

definition login_sanitized :: "body \<Rightarrow> body" where
  \<comment> \<open>the chain on \<^verbatim>\<open>username\<close> writes the trimmed and escaped value back into the body\<close>
  "login_sanitized b = b(''username'' := Some (escape (trim (toString (b ''username'')))))"

definition post_login_route ::
  "libs \<Rightarrow> (nat \<Rightarrow> bool) \<Rightarrow> store \<Rightarrow> user option \<Rightarrow> int option \<Rightarrow> body \<Rightarrow> result" where
  "post_login_route L fault s ru sess b0 =
     (let errs = login_errors b0; b = login_sanitized b0 in
      if errs \<noteq> [] then reply s sess [(''error'', Msg (join_msgs errs))] (Redirect ''/login'')
      else
        (case local_authenticate L (fault 1) s (b ''username'') (b ''password'') of
           VError e \<Rightarrow>
             reply s sess [(''error'', Msg ''An error occurred during login.'')] (Redirect ''/login'')
         | VFail m \<Rightarrow>
             reply s sess [(''error'', Msg (if m = [] then ''Login failed.'' else m))]
               (Redirect ''/login'')
         | VOk u \<Rightarrow>
             if fault 2
             then reply s sess [(''error'', Msg ''An error occurred during login.'')]
                    (Redirect ''/login'')
             else reply s (Some (serializeUser u)) [(''successMessage'', Msg ''Login successful!'')]
                    (Redirect ''/messages'')))"

definition post_login ::
  "env \<Rightarrow> libs \<Rightarrow> (nat \<Rightarrow> bool) \<Rightarrow> store \<Rightarrow> int option \<Rightarrow> body \<Rightarrow> result" where
  "post_login E L fault s sess b = app E fault s sess (\<lambda>ru sess'. post_login_route L fault s ru sess' b)"

section \<open>Registration\<close>

definition register_errors :: "libs \<Rightarrow> body \<Rightarrow> string list" where
  \<comment> \<open>the messages of the six chains, in the order in which \<^verbatim>\<open>errors.array()\<close> lists them\<close>
  "register_errors L b =
     (let fn = trim (toString (b ''first_name''));
          ln = trim (toString (b ''last_name''));
          un = trim (toString (b ''username''));
          em = trim (toString (b ''email''));
          pw = toString (b ''password'')
      in (if isLength 2 (Some 50) fn then []
          else [''First name must be between 2 and 50 characters'']) @
         (if matches_letters_spaces fn then []
          else [''First name can only contain letters and spaces'']) @
         (if isLength 2 (Some 50) ln then []
          else [''Last name must be between 2 and 50 characters'']) @
         (if matches_letters_spaces ln then []
          else [''Last name can only contain letters and spaces'']) @
         (if isLength 3 (Some 30) un then []
          else [''Username must be between 3 and 30 characters'']) @
         (if matches_word un then []
          else [''Username can only contain letters, numbers, and underscores'']) @
         (if isEmail L em then [] else [''Please provide a valid email address'']) @
         (if isLength 6 (Some 100) pw then []
          else [''Password must be at least 6 characters long'']) @
         (if matches_password pw then []
          else [''Password must contain at least one lowercase letter, one uppercase letter, and one number'']) @
         (if b ''confirm_password'' \<noteq> b ''password'' then [''Passwords do not match''] else []))"

definition sanitized_email :: "libs \<Rightarrow> body \<Rightarrow> string option" where
  \<comment> \<open>\<^verbatim>\<open>req.body.email\<close> after its chain: \<open>None\<close> when the normalizer gave \<^verbatim>\<open>false\<close>\<close>
  "sanitized_email L b = normalizeEmail L (trim (toString (b ''email'')))"

definition form_data :: "libs \<Rightarrow> body \<Rightarrow> (string \<times> jsval) list" where
  \<comment> \<open>\<^verbatim>\<open>req.body\<close> after the chains have run\<close>
  "form_data L b =
     [(''first_name'', JStr (trim (toString (b ''first_name'')))),
      (''last_name'', JStr (trim (toString (b ''last_name'')))),
      (''username'', JStr (trim (toString (b ''username'')))),
      (''email'', (case sanitized_email L b of None \<Rightarrow> JBool False | Some e \<Rightarrow> JStr e)),
      (''password'', optval (b ''password'')),
      (''confirm_password'', optval (b ''confirm_password'')),
      (''admin_code'', optval (b ''admin_code''))]"

definition register_failed :: "libs \<Rightarrow> store \<Rightarrow> int option \<Rightarrow> body \<Rightarrow> string \<Rightarrow> result" where
  "register_failed L s sess b m =
     reply s sess [(''error'', Msg m), (''formData'', Form (form_data L b))] (Redirect ''/register'')"

definition post_register_route ::
  "env \<Rightarrow> libs \<Rightarrow> (nat \<Rightarrow> bool) \<Rightarrow> store \<Rightarrow> user option \<Rightarrow> int option \<Rightarrow> body \<Rightarrow> result" where
  \<comment> \<open>\<open>caught\<close> is the answer of the \<^verbatim>\<open>catch\<close> block; it is also reached when the
      normalizer has left \<^verbatim>\<open>false\<close> in the body, on which \<^verbatim>\<open>email.trim()\<close> throws\<close>
  "post_register_route E L fault s ru sess b =
     (let errs = register_errors L b;
          caught = register_failed L s sess b
                     ''An error occurred during registration. Please try again.''
      in case errs of
           m # _ \<Rightarrow> register_failed L s sess b m
         | [] \<Rightarrow>
           (case sanitized_email L b of
              None \<Rightarrow> caught
            | Some em \<Rightarrow>
                (let un = trim (trim (toString (b ''username''))) in
                 case user_findFirst (fault 1) s un (trim em) of
                   Inl e \<Rightarrow> caught
                 | Inr (Some existingUser) \<Rightarrow>
                     register_failed L s sess b
                       ''Username or email already exists. Please choose different ones.''
                 | Inr None \<Rightarrow>
                     (let isAdmin = (b ''admin_code'' = ADMIN_SECRET_CODE E);
                          isMember = isAdmin;
                          hashedPassword = bcrypt_hash L (toString (b ''password''))
                      in case user_create (fault 2) s
                                (trim (trim (toString (b ''first_name''))))
                                (trim (trim (toString (b ''last_name''))))
                                un (trim em) hashedPassword isAdmin isMember of
                           Inl e \<Rightarrow> caught
                         | Inr s' \<Rightarrow>
                             reply s' sess
                               [(''success'', Msg ''Registration successful! Please log in with your credentials.'')]
                               (Redirect ''/login'')))))"

definition post_register ::
  "env \<Rightarrow> libs \<Rightarrow> (nat \<Rightarrow> bool) \<Rightarrow> store \<Rightarrow> int option \<Rightarrow> body \<Rightarrow> result" where
  "post_register E L fault s sess b =
     app E fault s sess (\<lambda>ru sess'. post_register_route E L fault s ru sess' b)"

section \<open>Membership promotion\<close>

definition post_become_member_route ::
  "env \<Rightarrow> (nat \<Rightarrow> bool) \<Rightarrow> store \<Rightarrow> user option \<Rightarrow> int option \<Rightarrow> body \<Rightarrow> result" where
  \<comment> \<open>after the update the handler also sets \<^verbatim>\<open>req.user.is_member\<close>, which nothing
      in the rest of the request reads; the next request resolves the principal afresh\<close>
  "post_become_member_route E fault s ru sess b =
     ensureLoggedIn s sess ru (\<lambda>u.
       let secret_code = trim (toString (b ''secret_code'')) in
       if \<not> isLength 1 None secret_code
       then reply s sess [(''error'', Msg ''Passcode is required'')] (Redirect ''/become-member'')
       else if Some secret_code \<noteq> MEMBER_SECRET_CODE E
       then reply s sess [(''error'', Msg ''Incorrect passcode. Please try again.'')]
              (Redirect ''/become-member'')
       else
         (case user_update_member (fault 1) s (user_id u) of
            Inl e \<Rightarrow>
              reply s sess [(''error'', Msg ''An error occurred while updating your membership.'')]
                (Redirect ''/become-member'')
          | Inr s' \<Rightarrow>
              reply s' sess
                [(''successMessage'', Msg ''Congratulations! You are now a full member.'')]
                (Redirect ''/messages'')))"

definition post_become_member ::
  "env \<Rightarrow> (nat \<Rightarrow> bool) \<Rightarrow> store \<Rightarrow> int option \<Rightarrow> body \<Rightarrow> result" where
  "post_become_member E fault s sess b =
     app E fault s sess (\<lambda>ru sess'. post_become_member_route E fault s ru sess' b)"

section \<open>Messages\<close>

definition get_create_message_route :: "store \<Rightarrow> user option \<Rightarrow> int option \<Rightarrow> result" where
  "get_create_message_route s ru sess =
     ensureLoggedIn s sess ru (\<lambda>u.
       if \<not> is_member u
       then reply s sess [(''error'', Msg ''You need to become a member first to create messages.'')]
              (Redirect ''/become-member'')
       else reply s sess []
              (Render 200 ''create-message'' [(''title'', JStr ''Create Message''), (''error'', JNull)]))"

definition get_create_message :: "env \<Rightarrow> (nat \<Rightarrow> bool) \<Rightarrow> store \<Rightarrow> int option \<Rightarrow> result" where
  "get_create_message E fault s sess = app E fault s sess (get_create_message_route s)"

definition post_create_message_route ::
  "(nat \<Rightarrow> bool) \<Rightarrow> store \<Rightarrow> user option \<Rightarrow> int option \<Rightarrow> body \<Rightarrow> result" where
  "post_create_message_route fault s ru sess b =
     ensureLoggedIn s sess ru (\<lambda>u.
       if \<not> is_member u then reply s sess [] (Send 403 ''Only members can create messages.'')
       else if falsy (b ''title'') \<or> falsy (b ''text'')
       then reply s sess []
              (Render 200 ''create-message''
                 [(''title'', JStr ''Create Message''),
                  (''error'', JStr ''Both title and message content are required.'')])
       else
         (case message_create (fault 1) s (trim (toString (b ''title''))) (trim (toString (b ''text'')))
                 (user_id u) of
            Inl e \<Rightarrow>
              reply s sess []
                (Render 200 ''create-message''
                   [(''title'', JStr ''Create Message''),
                    (''error'', JStr ''Failed to create message. Please try again.'')])
          | Inr s' \<Rightarrow>
              reply s' sess [(''successMessage'', Msg ''Message created successfully!'')]
                (Redirect ''/messages'')))"

definition post_create_message ::
  "env \<Rightarrow> (nat \<Rightarrow> bool) \<Rightarrow> store \<Rightarrow> int option \<Rightarrow> body \<Rightarrow> result" where
  "post_create_message E fault s sess b =
     app E fault s sess (\<lambda>ru sess'. post_create_message_route fault s ru sess' b)"

definition get_the_code_route :: "env \<Rightarrow> store \<Rightarrow> user option \<Rightarrow> int option \<Rightarrow> result" where
  "get_the_code_route E s ru sess =
     reply s sess []
       (Render 200 ''get-the-code''
          [(''title'', JStr ''Get the Code''), (''memberCode'', optval (MEMBER_SECRET_CODE E))])"

definition get_the_code :: "env \<Rightarrow> (nat \<Rightarrow> bool) \<Rightarrow> store \<Rightarrow> int option \<Rightarrow> result" where
  "get_the_code E fault s sess = app E fault s sess (get_the_code_route E s)"

definition post_delete_message_route ::
  "(nat \<Rightarrow> bool) \<Rightarrow> store \<Rightarrow> user option \<Rightarrow> int option \<Rightarrow> string \<Rightarrow> result" where
  \<comment> \<open>\<open>param\<close> is \<^verbatim>\<open>req.params.id\<close>. A number beyond the safe integers is the identifier of
      no row of the messages table, so the delete rejects and the \<^verbatim>\<open>catch\<close> block
      answers, whether the store is reachable or not\<close>
  "post_delete_message_route fault s ru sess param =
     ensureLoggedIn s sess ru (\<lambda>u.
       if \<not> is_admin u
       then reply s sess [] (Send 403 ''You are not authorized to delete messages.'')
       else
         (case parseInt param of
            NaN \<Rightarrow> reply s sess [(''error'', Msg ''Invalid message ID.'')] (Redirect ''/messages'')
          | Num messageId \<Rightarrow>
              (case message_delete (fault 1) s messageId of
                 Inl e \<Rightarrow>
                   reply s sess [(''error'', Msg ''Error deleting message.'')] (Redirect ''/messages'')
               | Inr s' \<Rightarrow>
                   reply s' sess [(''successMessage'', Msg ''Message deleted successfully.'')]
                     (Redirect ''/messages''))
          | Unsafe \<Rightarrow>
              reply s sess [(''error'', Msg ''Error deleting message.'')] (Redirect ''/messages'')))"

definition post_delete_message ::
  "env \<Rightarrow> (nat \<Rightarrow> bool) \<Rightarrow> store \<Rightarrow> int option \<Rightarrow> string \<Rightarrow> result" where
  "post_delete_message E fault s sess param =
     app E fault s sess (\<lambda>ru sess'. post_delete_message_route fault s ru sess' param)"

section \<open>The role invariant and the stores the routes produce\<close>

definition admin_implies_member :: "store \<Rightarrow> bool" where
  "admin_implies_member s = list_all (\<lambda>u. is_admin u \<longrightarrow> is_member u) (users s)"

definition empty_store :: store where
  "empty_store = \<lparr>users = [], messages = [], user_seq = 0, message_seq = 0\<rparr>"

text \<open>
  A request that can change the store, with the faults it meets and the session identifier
  it carries, and the store after a sequence of such requests.
\<close>

datatype request =
  PostLogin "nat \<Rightarrow> bool" "int option" body
| PostRegister "nat \<Rightarrow> bool" "int option" body
| PostBecomeMember "nat \<Rightarrow> bool" "int option" body
| PostCreateMessage "nat \<Rightarrow> bool" "int option" body
| PostDeleteMessage "nat \<Rightarrow> bool" "int option" string

fun handle :: "env \<Rightarrow> libs \<Rightarrow> store \<Rightarrow> request \<Rightarrow> result" where
  "handle E L s (PostLogin fault sess b) = post_login E L fault s sess b"
| "handle E L s (PostRegister fault sess b) = post_register E L fault s sess b"
| "handle E L s (PostBecomeMember fault sess b) = post_become_member E fault s sess b"
| "handle E L s (PostCreateMessage fault sess b) = post_create_message E fault s sess b"
| "handle E L s (PostDeleteMessage fault sess p) = post_delete_message E fault s sess p"

fun run :: "env \<Rightarrow> libs \<Rightarrow> store \<Rightarrow> request list \<Rightarrow> store" where
  "run E L s [] = s"
| "run E L s (r # rs) = run E L (db (handle E L s r)) rs"

section \<open>Concrete inputs\<close>

definition form :: "(string \<times> string) list \<Rightarrow> body" where
  \<comment> \<open>the body of a form post with the given fields\<close>
  "form kvs = map_of kvs"

definition no_fault :: "nat \<Rightarrow> bool" where
  "no_fault k = False"

definition ex_libs :: libs where
  "ex_libs = \<lparr>isEmail = (\<lambda>s. CHR ''@'' \<in> set s), normalizeEmail = (\<lambda>s. Some s),
              bcrypt_hash = (\<lambda>p. ''#'' @ p), bcrypt_compare = (\<lambda>p h. h = ''#'' @ p)\<rparr>"

definition gmail_libs :: libs where
  \<comment> \<open>as \<open>ex_libs\<close>, with the normalizer as the library answers at the address used below:
      it drops the sub-address of a gmail address and returns \<^verbatim>\<open>false\<close> when no local
      part is left\<close>
  "gmail_libs = ex_libs\<lparr>normalizeEmail := (\<lambda>s. if s = ''+foo@gmail.com'' then None else Some s)\<rparr>"

definition ex_env :: env where
  "ex_env = \<lparr>MEMBER_SECRET_CODE = Some ''abc'', ADMIN_SECRET_CODE = Some ''root'', NODE_ENV = None\<rparr>"

definition alice :: user where
  "alice = \<lparr>user_id = 1, first_name = ''Alice'', last_name = ''Liddell'', username = ''alice'',
            email = ''alice@x.com'', password = ''#Secret1'', is_admin = False, is_member = True\<rparr>"

definition obrien :: user where
  "obrien = \<lparr>user_id = 2, first_name = ''Pat'', last_name = ''OBrien'', username = ''pat'',
             email = ''o'' @ [CHR 0x27] @ ''brien@x.com'', password = ''#Secret2'',
             is_admin = False, is_member = False\<rparr>"

definition ruth :: user where
  "ruth = \<lparr>user_id = 3, first_name = ''Ruth'', last_name = ''Root'', username = ''ruth'',
           email = ''ruth@x.com'', password = ''#Secret3'', is_admin = True, is_member = True\<rparr>"

definition ex_store :: store where
  "ex_store = \<lparr>users = [alice, obrien, ruth],
               messages = [\<lparr>message_id = 1, title = ''hello'', content = ''world'', author_id = 1\<rparr>],
               user_seq = 3, message_seq = 1\<rparr>"

definition dup_username_form :: body where
  "dup_username_form =
     form [(''first_name'', ''Al''), (''last_name'', ''Bo''), (''username'', '' alice''),
           (''email'', ''other@x.com''), (''password'', ''Secret1''),
           (''confirm_password'', ''Secret1'')]"

definition dup_username_gmail_form :: body where
  "dup_username_gmail_form =
     form [(''first_name'', ''Al''), (''last_name'', ''Bo''), (''username'', ''alice''),
           (''email'', ''+foo@gmail.com''), (''password'', ''Secret1''),
           (''confirm_password'', ''Secret1'')]"

definition admin_form :: body where
  "admin_form =
     form [(''first_name'', ''Al''), (''last_name'', ''Bo''), (''username'', ''albo''),
           (''email'', ''al@x.com''), (''password'', ''Secret1''),
           (''confirm_password'', ''Secret1''), (''admin_code'', ''root'')]"

definition obrien_login :: body where
  "obrien_login =
     form [(''username'', ''o'' @ [CHR 0x27] @ ''brien@x.com''), (''password'', ''Secret2'')]"

section \<open>Facts about the sanitizers\<close>

lemmas ex_defs = form_def no_fault_def ex_libs_def gmail_libs_def ex_env_def alice_def obrien_def
  ruth_def ex_store_def

lemmas string_defs = toString_def trim_def is_space_def isLength_def matches_letters_spaces_def
  matches_word_def matches_password_def is_lower_def is_upper_def is_digit_def
  is_line_terminator_def falsy_def

lemmas session_defs = app_def passport_session_def deserializeUser_def user_findUnique_def
  ensureLoggedIn_def reply_def

lemma trim_example: "trim '' ab c  '' = ''ab c''"
  by (simp add: trim_def is_space_def)

lemma parseInt_examples:
  "parseInt ''42'' = Num 42" "parseInt '' -7x'' = Num (- 7)" "parseInt ''abc'' = NaN"
  "parseInt [] = NaN" "parseInt ''9007199254740993'' = Unsafe"
  by (simp_all add: parseInt_def is_space_def is_digit_def digits_value_def digit_value_def)

lemma length_escape_char: "1 \<le> length (escape_char c)"
  by simp

lemma escape_Nil_iff: "escape s = [] \<longleftrightarrow> s = []"
  by (cases s) (auto simp: escape_def)

lemma length_escape_ge: "length s \<le> length (escape s)"
  by (induction s) (auto simp: escape_def)

lemma special_escape_longer: "list_ex html_special s \<Longrightarrow> length s < length (escape s)"
proof (induction s)
  case Nil
  then show ?case by simp
next
  case (Cons c s)
  have ge: "length s \<le> length (escape s)" by (rule length_escape_ge)
  show ?case
  proof (cases "html_special c")
    case True
    then have "2 \<le> length (escape_char c)" by (auto simp: html_special_def)
    with ge show ?thesis by (simp add: escape_def)
  next
    case False
    with Cons have "length s < length (escape s)" by simp
    then show ?thesis
      using length_escape_char[of c] by (simp add: escape_def del: escape_char.simps)
  qed
qed

lemma dropWhile_id: "xs = [] \<or> \<not> P (hd xs) \<Longrightarrow> dropWhile P xs = xs"
  by (cases xs) auto

lemma hd_rev_dropWhile_rev:
  assumes "rev (dropWhile P (rev t)) \<noteq> []"
  shows "hd (rev (dropWhile P (rev t))) = hd t"
proof -
  let ?n = "length (takeWhile P (rev t))"
  have eq: "rev (dropWhile P (rev t)) = take (length t - ?n) t"
    by (simp add: dropWhile_eq_drop rev_drop)
  with assms have "0 < length t - ?n" by (cases "length t - ?n") auto
  then show ?thesis unfolding eq by (cases t) auto
qed

lemma trim_idem: "trim (trim s) = trim s"
proof -
  let ?t = "dropWhile is_space s"
  let ?r = "dropWhile is_space (rev ?t)"
  have front: "dropWhile is_space (rev ?r) = rev ?r"
  proof (cases "rev ?r = []")
    case True
    then have "dropWhile is_space (rev ?r) = dropWhile is_space []" by (simp only:)
    also have "\<dots> = []" by simp
    finally show ?thesis using True by (simp only:)
  next
    case False
    then have h: "hd (rev ?r) = hd ?t" by (rule hd_rev_dropWhile_rev)
    have "?t \<noteq> []"
    proof
      assume "?t = []"
      then have "rev ?r = []" by (simp only: rev.simps dropWhile.simps)
      with False show False by contradiction
    qed
    then have "\<not> is_space (hd ?t)" by (rule hd_dropWhile)
    with h show ?thesis by (intro dropWhile_id) simp
  qed
  have rear: "dropWhile is_space ?r = ?r" by simp
  show ?thesis unfolding trim_def front by (simp add: rear)
qed

section \<open>Facts about session resolution\<close>

lemma passport_session_Some:
  assumes "passport_session fault s sess = Inr (Some u, sess')"
  shows "sess = Some (user_id u)" "sess' = sess" "u \<in> set (users s)"
        "find (\<lambda>v. user_id v = user_id u) (users s) = Some u"
proof -
  from assms obtain i where i: "sess = Some i" "\<not> fault 0"
    "find (\<lambda>v. user_id v = i) (users s) = Some u" "sess' = Some i"
    by (auto simp: passport_session_def deserializeUser_def user_findUnique_def
             split: option.splits if_splits)
  from i(3) have "user_id u = i" "u \<in> set (users s)"
    by (auto simp: find_Some_iff in_set_conv_nth)
  with i show "sess = Some (user_id u)" "sess' = sess" "u \<in> set (users s)"
    "find (\<lambda>v. user_id v = user_id u) (users s) = Some u"
    by simp_all
qed

lemma app_resolved:
  "passport_session fault s sess = Inr (ru, sess') \<Longrightarrow> app E fault s sess route = route ru sess'"
  by (simp add: app_def)

lemma db_reply: "db (reply s sess fl r) = s"
  by (simp add: reply_def)

lemma app_cases:
  assumes "\<And>e. P (reply s sess [] (error_handler E e))"
      and "\<And>ru sess'. P (route ru sess')"
  shows "P (app E fault s sess route)"
  using assms by (auto simp: app_def split: sum.splits)

lemma login_ok_fields:
  assumes "login_errors b = []"
  shows "\<not> falsy (login_sanitized b ''username'')" "\<not> falsy (login_sanitized b ''password'')"
    "toString (login_sanitized b ''username'') = escape (trim (toString (b ''username'')))"
    "toString (login_sanitized b ''password'') = toString (b ''password'')"
  using assms
  by (auto simp: login_errors_def login_sanitized_def falsy_def isLength_def toString_def
        escape_Nil_iff split: if_splits option.splits)

section \<open>Login failures\<close>

lemma ex_session_none: "passport_session no_fault ex_store None = Inr (None, None)"
  by (simp add: passport_session_def)

lemma ex_login_fields:
  "login_errors (form [(''username'', ''nobody''), (''password'', ''x'')]) = []"
  "login_errors (form [(''username'', ''alice''), (''password'', ''x'')]) = []"
  by (simp_all add: login_errors_def form_def isLength_def toString_def trim_def is_space_def)

text \<open>
  Claim C1, as amended. A login whose two fields pass validation, with the store reachable for
  the lookup, fails in two different ways: when no user has the sanitized identifier as
  username or email, the handler flashes \<^verbatim>\<open>User not found\<close>; when the first such user's
  stored hash does not verify the password, it flashes \<^verbatim>\<open>Invalid password\<close>. Both
  redirect to \<^verbatim>\<open>/login\<close>, issue no session and leave the store as it was.
\<close>

theorem login_failure_messages:
  assumes "passport_session fault s sess = Inr (ru, sess')"
      and "login_errors b = []"
      and "\<not> fault 1"
  shows "(find (\<lambda>u. username u = escape (trim (toString (b ''username''))) \<or>
                     email u = escape (trim (toString (b ''username'')))) (users s) = None
          \<longrightarrow> post_login E L fault s sess b =
                reply s sess' [(''error'', Msg ''User not found'')] (Redirect ''/login'')) \<and>
         (\<forall>u. find (\<lambda>u. username u = escape (trim (toString (b ''username''))) \<or>
                     email u = escape (trim (toString (b ''username'')))) (users s) = Some u \<and>
              \<not> bcrypt_compare L (toString (b ''password'')) (password u)
          \<longrightarrow> post_login E L fault s sess b =
                reply s sess' [(''error'', Msg ''Invalid password'')] (Redirect ''/login''))"
  using assms login_ok_fields[OF assms(2)]
  by (simp add: post_login_def app_resolved post_login_route_def local_authenticate_def
        verify_def user_findFirst_def)

theorem login_failure_messages_witness:
  "post_login ex_env ex_libs no_fault ex_store None
       (form [(''username'', ''nobody''), (''password'', ''x'')])
     = reply ex_store None [(''error'', Msg ''User not found'')] (Redirect ''/login'') \<and>
   post_login ex_env ex_libs no_fault ex_store None
       (form [(''username'', ''alice''), (''password'', ''x'')])
     = reply ex_store None [(''error'', Msg ''Invalid password'')] (Redirect ''/login'')"
proof -
  let ?b1 = "form [(''username'', ''nobody''), (''password'', ''x'')]"
  let ?b2 = "form [(''username'', ''alice''), (''password'', ''x'')]"
  have nf: "\<not> no_fault 1" by (simp add: no_fault_def)
  note a = login_failure_messages[OF ex_session_none ex_login_fields(1) nf, of ex_env ex_libs]
  note b = login_failure_messages[OF ex_session_none ex_login_fields(2) nf, of ex_env ex_libs]
  have 1: "find (\<lambda>u. username u = escape (trim (toString (?b1 ''username''))) \<or>
                      email u = escape (trim (toString (?b1 ''username'')))) (users ex_store) = None"
    by (simp add: ex_defs toString_def trim_def is_space_def escape_def)
  have 2: "find (\<lambda>u. username u = escape (trim (toString (?b2 ''username''))) \<or>
                      email u = escape (trim (toString (?b2 ''username'')))) (users ex_store)
             = Some alice"
    by (simp add: ex_defs toString_def trim_def is_space_def escape_def)
  have 3: "\<not> bcrypt_compare ex_libs (toString (?b2 ''password'')) (password alice)"
    by (simp add: ex_defs toString_def)
  from a 1 b 2 3 show ?thesis by blast
qed

text \<open>
  Claim C1 as stated fails: in the example store no user is called \<^verbatim>\<open>nobody\<close>, the user
  \<^verbatim>\<open>alice\<close> exists and \<^verbatim>\<open>x\<close> is not her password, and the two logins flash different
  messages.
\<close>

theorem login_messages_differ:
  "user_findFirst False ex_store ''nobody'' ''nobody'' = Inr None \<and>
   user_findFirst False ex_store ''alice'' ''alice'' = Inr (Some alice) \<and>
   \<not> bcrypt_compare ex_libs ''x'' (password alice) \<and>
   flash (post_login ex_env ex_libs no_fault ex_store None
            (form [(''username'', ''nobody''), (''password'', ''x'')]))
     = [(''error'', Msg ''User not found'')] \<and>
   flash (post_login ex_env ex_libs no_fault ex_store None
            (form [(''username'', ''alice''), (''password'', ''x'')]))
     = [(''error'', Msg ''Invalid password'')] \<and>
   flash (post_login ex_env ex_libs no_fault ex_store None
            (form [(''username'', ''nobody''), (''password'', ''x'')]))
     \<noteq> flash (post_login ex_env ex_libs no_fault ex_store None
            (form [(''username'', ''alice''), (''password'', ''x'')]))"
  by (simp add: post_login_def post_login_route_def session_defs ex_defs login_errors_def
        login_sanitized_def local_authenticate_def verify_def user_findFirst_def falsy_def
        toString_def trim_def is_space_def escape_def isLength_def)

section \<open>The code page and message creation\<close>

lemma ex_session_alice: "passport_session no_fault ex_store (Some 1) = Inr (Some alice, Some 1)"
  by (simp add: session_defs ex_defs)

lemma ex_session_obrien: "passport_session no_fault ex_store (Some 2) = Inr (Some obrien, Some 2)"
  by (simp add: session_defs ex_defs)


text \<open>
  Claim C2. The route \<^verbatim>\<open>GET /get-the-code\<close> has no gate: whatever the principal (none
  included), the handler renders the view \<^verbatim>\<open>get-the-code\<close> with \<^verbatim>\<open>memberCode\<close> set to
  the member secret of the environment. An anonymous request always gets this page, and a
  request with a session gets it unless resolving the session fails on the store, in which
  case the error page is rendered.
\<close>

theorem get_the_code_ungated:
  "get_the_code_route E s ru sess' =
     reply s sess' []
       (Render 200 ''get-the-code''
          [(''title'', JStr ''Get the Code''), (''memberCode'', optval (MEMBER_SECRET_CODE E))]) \<and>
   get_the_code E fault s None =
     reply s None []
       (Render 200 ''get-the-code''
          [(''title'', JStr ''Get the Code''), (''memberCode'', optval (MEMBER_SECRET_CODE E))]) \<and>
   resp (get_the_code E fault s sess) =
     (if sess \<noteq> None \<and> fault 0 then error_handler E StoreUnavailable
      else Render 200 ''get-the-code''
             [(''title'', JStr ''Get the Code''), (''memberCode'', optval (MEMBER_SECRET_CODE E))])"
  by (auto simp: get_the_code_def get_the_code_route_def session_defs split: option.splits)

text \<open>
  Claim C3 at a failing input. The member \<^verbatim>\<open>alice\<close> posts a title of three spaces: the
  title is empty after trimming, yet the request is not rejected; a message with the empty
  title is stored and the response is the redirect of a successful creation.
\<close>

theorem create_message_blank_title:
  "is_member alice \<and>
   trim (toString (form [(''title'', ''   ''), (''text'', ''hello'')] ''title'')) = [] \<and>
   post_create_message ex_env no_fault ex_store (Some 1)
       (form [(''title'', ''   ''), (''text'', ''hello'')])
     = reply (ex_store\<lparr>messages := messages ex_store @
                 [\<lparr>message_id = 2, title = [], content = ''hello'', author_id = 1\<rparr>],
               message_seq := 2\<rparr>)
         (Some 1) [(''successMessage'', Msg ''Message created successfully!'')]
         (Redirect ''/messages'')"
  by (simp add: post_create_message_def session_defs post_create_message_route_def
        message_create_def falsy_def toString_def trim_def is_space_def ex_defs)

text \<open>
  What the route does check: a field that is missing or the empty string is rejected, and
  any other pair of fields is stored, trimmed, under the principal's identifier.
\<close>

lemma create_message_rejects_empty:
  assumes "passport_session fault s sess = Inr (Some u, sess')" and "is_member u"
      and "falsy (b ''title'') \<or> falsy (b ''text'')"
  shows "post_create_message E fault s sess b =
           reply s sess' []
             (Render 200 ''create-message''
                [(''title'', JStr ''Create Message''),
                 (''error'', JStr ''Both title and message content are required.'')])"
  using assms
  by (simp add: post_create_message_def app_resolved post_create_message_route_def
        ensureLoggedIn_def)

lemma create_message_persists:
  assumes "passport_session fault s sess = Inr (Some u, sess')" and "is_member u"
      and "\<not> falsy (b ''title'')" and "\<not> falsy (b ''text'')" and "\<not> fault 1"
  shows "post_create_message E fault s sess b =
           reply (s\<lparr>messages := messages s @
                     [\<lparr>message_id = message_seq s + 1, title = trim (toString (b ''title'')),
                       content = trim (toString (b ''text'')), author_id = user_id u\<rparr>],
                   message_seq := message_seq s + 1\<rparr>)
             sess' [(''successMessage'', Msg ''Message created successfully!'')]
             (Redirect ''/messages'')"
proof -
  from assms(1) have "u \<in> set (users s)" by (rule passport_session_Some)
  then have "list_ex (\<lambda>v. user_id v = user_id u) (users s)" by (auto simp: list_ex_iff)
  with assms show ?thesis
    by (simp add: post_create_message_def app_resolved post_create_message_route_def
          ensureLoggedIn_def message_create_def)
qed

text \<open>
  Claim C4, as amended. For an authenticated principal who is not a member,
  \<^verbatim>\<open>GET /create-message\<close> redirects to \<^verbatim>\<open>/become-member\<close> with a flashed explanation,
  and \<^verbatim>\<open>POST /create-message\<close> answers 403 with a text, without redirect or flash; in both
  cases the store is left as it was.
\<close>

theorem non_member_create_message:
  assumes "passport_session fault s sess = Inr (Some u, sess')" and "\<not> is_member u"
  shows "get_create_message E fault s sess =
           reply s sess' [(''error'', Msg ''You need to become a member first to create messages.'')]
             (Redirect ''/become-member'') \<and>
         post_create_message E fault s sess b =
           reply s sess' [] (Send 403 ''Only members can create messages.'')"
  using assms
  by (simp add: get_create_message_def post_create_message_def app_resolved
        get_create_message_route_def post_create_message_route_def ensureLoggedIn_def)

theorem non_member_create_message_witness:
  "\<not> is_member obrien \<and>
   get_create_message ex_env no_fault ex_store (Some 2) =
     reply ex_store (Some 2)
       [(''error'', Msg ''You need to become a member first to create messages.'')]
       (Redirect ''/become-member'') \<and>
   post_create_message ex_env no_fault ex_store (Some 2)
       (form [(''title'', ''t''), (''text'', ''hello'')]) =
     reply ex_store (Some 2) [] (Send 403 ''Only members can create messages.'')"
proof -
  have nm: "\<not> is_member obrien" by (simp add: obrien_def)
  from non_member_create_message[OF ex_session_obrien nm] nm show ?thesis by simp
qed

text \<open>
  Claim C4 as stated fails on the create-message operation itself: the non-member
  \<^verbatim>\<open>obrien\<close> posts a message and is answered 403, not redirected to the promotion flow,
  and nothing is flashed.
\<close>

theorem non_member_post_not_redirected:
  "passport_session no_fault ex_store (Some 2) = Inr (Some obrien, Some 2) \<and>
   \<not> is_member obrien \<and>
   resp (post_create_message ex_env no_fault ex_store (Some 2)
           (form [(''title'', ''t''), (''text'', ''hello'')]))
     = Send 403 ''Only members can create messages.'' \<and>
   resp (post_create_message ex_env no_fault ex_store (Some 2)
           (form [(''title'', ''t''), (''text'', ''hello'')]))
     \<noteq> Redirect ''/become-member'' \<and>
   flash (post_create_message ex_env no_fault ex_store (Some 2)
            (form [(''title'', ''t''), (''text'', ''hello'')]))
     = []"
  by (simp add: post_create_message_def session_defs post_create_message_route_def ex_defs)

section \<open>Admin implies member\<close>

lemma db_register_failed: "db (register_failed L s sess b m) = s"
  by (simp add: register_failed_def db_reply)

lemma register_route_users:
  "users (db (post_register_route E L fault s ru sess b)) = users s \<or>
   (\<exists>v. users (db (post_register_route E L fault s ru sess b)) = users s @ [v] \<and>
        is_member v = is_admin v)"
  by (auto simp: post_register_route_def Let_def db_register_failed db_reply user_create_def
           split: list.splits option.splits sum.splits if_splits)

lemma register_users:
  "users (db (post_register E L fault s sess b)) = users s \<or>
   (\<exists>v. users (db (post_register E L fault s sess b)) = users s @ [v] \<and>
        is_member v = is_admin v)"
  unfolding post_register_def
  by (rule app_cases) (simp add: db_reply, rule register_route_users)

lemma become_member_route_users:
  "users (db (post_become_member_route E fault s ru sess b)) = users s \<or>
   (\<exists>i. users (db (post_become_member_route E fault s ru sess b)) =
          map (\<lambda>u. if user_id u = i then u\<lparr>is_member := True\<rparr> else u) (users s))"
  by (auto simp: post_become_member_route_def ensureLoggedIn_def Let_def db_reply
        user_update_member_def split: option.splits sum.splits if_splits)

lemma become_member_users:
  "users (db (post_become_member E fault s sess b)) = users s \<or>
   (\<exists>i. users (db (post_become_member E fault s sess b)) =
          map (\<lambda>u. if user_id u = i then u\<lparr>is_member := True\<rparr> else u) (users s))"
  unfolding post_become_member_def
  by (rule app_cases) (simp add: db_reply, rule become_member_route_users)

lemma login_users: "users (db (post_login E L fault s sess b)) = users s"
proof -
  have r: "db (post_login_route L fault s ru sess' b) = s" for ru sess'
    by (simp add: post_login_route_def Let_def db_reply split: verified.splits)
  show ?thesis
    unfolding post_login_def by (rule app_cases) (simp_all add: db_reply r)
qed

lemma create_message_users: "users (db (post_create_message E fault s sess b)) = users s"
proof -
  have r: "users (db (post_create_message_route fault s ru sess' b)) = users s" for ru sess'
    by (auto simp: post_create_message_route_def ensureLoggedIn_def db_reply message_create_def
          split: option.splits sum.splits if_splits)
  show ?thesis
    unfolding post_create_message_def by (rule app_cases) (simp_all add: db_reply r)
qed

lemma delete_message_users: "users (db (post_delete_message E fault s sess p)) = users s"
proof -
  have r: "users (db (post_delete_message_route fault s ru sess' p)) = users s" for ru sess'
    by (auto simp: post_delete_message_route_def ensureLoggedIn_def db_reply message_delete_def
          split: option.splits sum.splits jsnumber.splits if_splits)
  show ?thesis
    unfolding post_delete_message_def by (rule app_cases) (simp_all add: db_reply r)
qed

lemma invariant_cong: "users s' = users s \<Longrightarrow> admin_implies_member s' = admin_implies_member s"
  by (simp add: admin_implies_member_def)

lemma invariant_register:
  assumes "admin_implies_member s"
  shows "admin_implies_member (db (post_register E L fault s sess b))"
  using register_users[of E L fault s sess b] assms
  by (auto simp: admin_implies_member_def)

lemma invariant_become_member:
  assumes "admin_implies_member s"
  shows "admin_implies_member (db (post_become_member E fault s sess b))"
  using become_member_users[of E fault s sess b] assms
  by (auto simp: admin_implies_member_def list_all_iff)

lemma ex_store_invariant: "admin_implies_member ex_store"
  by (simp add: admin_implies_member_def ex_defs)

lemma ex_register_admin:
  "post_register ex_env ex_libs no_fault ex_store None admin_form
   = reply (ex_store\<lparr>users := users ex_store @
               [\<lparr>user_id = 4, first_name = ''Al'', last_name = ''Bo'', username = ''albo'',
                 email = ''al@x.com'', password = ''#Secret1'', is_admin = True,
                 is_member = True\<rparr>],
             user_seq := 4\<rparr>)
       None [(''success'', Msg ''Registration successful! Please log in with your credentials.'')]
       (Redirect ''/login'')"
  by (simp add: post_register_def post_register_route_def session_defs register_errors_def
        sanitized_email_def user_findFirst_def user_create_def string_defs ex_defs admin_form_def)

lemma ex_promote_obrien:
  "post_become_member ex_env no_fault ex_store (Some 2) (form [(''secret_code'', ''abc'')])
   = reply (ex_store\<lparr>users := [alice, obrien\<lparr>is_member := True\<rparr>, ruth]\<rparr>) (Some 2)
       [(''successMessage'', Msg ''Congratulations! You are now a full member.'')]
       (Redirect ''/messages'')"
  by (simp add: post_become_member_def post_become_member_route_def session_defs
        user_update_member_def string_defs ex_defs)

text \<open>
  Claim C5. If every admin of the store is a member, the same holds of the store after any
  registration request and after any membership-promotion request, whatever their fields,
  session and faults: a registration adds at most one user, whose member flag equals its
  admin flag, and a promotion only sets member flags.
\<close>

theorem admin_implies_member_preserved:
  assumes "admin_implies_member s"
  shows "admin_implies_member (db (post_register E L fault s sess b)) \<and>
         admin_implies_member (db (post_become_member E fault' s sess' b'))"
  using assms by (simp add: invariant_register invariant_become_member)

theorem admin_implies_member_preserved_witness:
  "admin_implies_member ex_store \<and>
   admin_implies_member
     (ex_store\<lparr>users := users ex_store @
        [\<lparr>user_id = 4, first_name = ''Al'', last_name = ''Bo'', username = ''albo'',
          email = ''al@x.com'', password = ''#Secret1'', is_admin = True, is_member = True\<rparr>],
        user_seq := 4\<rparr>) \<and>
   admin_implies_member (ex_store\<lparr>users := [alice, obrien\<lparr>is_member := True\<rparr>, ruth]\<rparr>)"
  using admin_implies_member_preserved[OF ex_store_invariant, of ex_env ex_libs no_fault None
      admin_form no_fault "Some 2" "form [(''secret_code'', ''abc'')]"]
    ex_store_invariant
  by (simp add: ex_register_admin ex_promote_obrien db_reply)

text \<open>
  The invariant holds of the empty store and is kept by every request that changes the
  store, so it holds after any sequence of requests.
\<close>

lemma invariant_handle:
  "admin_implies_member s \<Longrightarrow> admin_implies_member (db (handle E L s r))"
  by (cases r)
     (simp_all add: invariant_register invariant_become_member invariant_cong[OF login_users]
        invariant_cong[OF create_message_users] invariant_cong[OF delete_message_users])

lemma invariant_run: "admin_implies_member s \<Longrightarrow> admin_implies_member (run E L s rs)"
  by (induction rs arbitrary: s) (simp_all add: invariant_handle)

lemma invariant_from_empty: "admin_implies_member (run E L empty_store rs)"
  by (rule invariant_run) (simp add: admin_implies_member_def empty_store_def)

section \<open>Registration conflicts\<close>

lemma existing_user_found:
  assumes "u \<in> set (users s)"
      and "username u = trim (toString (b ''username'')) \<or>
           (\<exists>em. sanitized_email L b = Some em \<and> email u = trim em)"
      and "sanitized_email L b = Some em"
  shows "\<exists>x. user_findFirst False s (trim (trim (toString (b ''username'')))) (trim em) = Inr (Some x)"
proof -
  let ?P = "\<lambda>v. username v = trim (trim (toString (b ''username''))) \<or> email v = trim em"
  from assms have "?P u" by (auto simp: trim_idem)
  with assms(1) have "find ?P (users s) \<noteq> None" by (auto simp: find_None_iff)
  then show ?thesis by (auto simp: user_findFirst_def)
qed

lemma existing_user_route:
  assumes "u \<in> set (users s)"
      and "username u = trim (toString (b ''username'')) \<or>
           (\<exists>em. sanitized_email L b = Some em \<and> email u = trim em)"
  shows "db (post_register_route E L fault s ru sess' b) = s"
    and "register_errors L b = [] \<Longrightarrow> sanitized_email L b \<noteq> None \<Longrightarrow> \<not> fault 1 \<Longrightarrow>
         post_register_route E L fault s ru sess' b =
           register_failed L s sess' b
             ''Username or email already exists. Please choose different ones.''"
proof -
  show "db (post_register_route E L fault s ru sess' b) = s"
  proof (cases "sanitized_email L b")
    case None
    then show ?thesis
      by (simp add: post_register_route_def Let_def db_register_failed split: list.splits)
  next
    case (Some em)
    from existing_user_found[OF assms Some] obtain x where
      x: "user_findFirst False s (trim (trim (toString (b ''username'')))) (trim em) = Inr (Some x)"
      by blast
    show ?thesis
    proof (cases "fault 1")
      case True
      then show ?thesis using Some
        by (simp add: post_register_route_def Let_def db_register_failed user_findFirst_def
              split: list.splits)
    next
      case False
      then show ?thesis using Some x
        by (simp add: post_register_route_def Let_def db_register_failed split: list.splits)
    qed
  qed
next
  assume ok: "register_errors L b = []" "sanitized_email L b \<noteq> None" "\<not> fault 1"
  then obtain em where em: "sanitized_email L b = Some em" by auto
  from existing_user_found[OF assms em] obtain x where
    "user_findFirst False s (trim (trim (toString (b ''username'')))) (trim em) = Inr (Some x)"
    by blast
  with ok em show "post_register_route E L fault s ru sess' b =
      register_failed L s sess' b ''Username or email already exists. Please choose different ones.''"
    by (simp add: post_register_route_def Let_def)
qed

text \<open>
  What the route does guarantee. When the store already holds a user whose username is the
  submitted username (trimmed), or whose email is the submitted email as normalized, a
  registration request leaves the store exactly as it was, whatever else happens to the
  request. When moreover the fields pass validation, the normalizer returns an email and
  the store answers the lookup, the request is answered with the conflict message and the
  redirect to \<^verbatim>\<open>/register\<close>.
\<close>

lemma register_conflict:
  assumes "u \<in> set (users s)"
      and "username u = trim (toString (b ''username'')) \<or>
           (\<exists>em. sanitized_email L b = Some em \<and> email u = trim em)"
  shows "db (post_register E L fault s sess b) = s \<and>
         (\<forall>ru sess'. passport_session fault s sess = Inr (ru, sess') \<and>
              register_errors L b = [] \<and> sanitized_email L b \<noteq> None \<and> \<not> fault 1 \<longrightarrow>
            post_register E L fault s sess b =
              register_failed L s sess' b
                ''Username or email already exists. Please choose different ones.'')"
proof
  show "db (post_register E L fault s sess b) = s"
    unfolding post_register_def
    by (rule app_cases) (simp_all add: db_reply existing_user_route(1)[OF assms])
next
  show "\<forall>ru sess'. passport_session fault s sess = Inr (ru, sess') \<and>
              register_errors L b = [] \<and> sanitized_email L b \<noteq> None \<and> \<not> fault 1 \<longrightarrow>
            post_register E L fault s sess b =
              register_failed L s sess' b
                ''Username or email already exists. Please choose different ones.''"
    by (auto simp: post_register_def app_resolved existing_user_route(2)[OF assms])
qed

lemma register_conflict_example:
  "alice \<in> set (users ex_store) \<and>
   username alice = trim (toString (dup_username_form ''username'')) \<and>
   db (post_register ex_env ex_libs no_fault ex_store None dup_username_form) = ex_store \<and>
   post_register ex_env ex_libs no_fault ex_store None dup_username_form =
     register_failed ex_libs ex_store None dup_username_form
       ''Username or email already exists. Please choose different ones.''"
proof -
  have 1: "alice \<in> set (users ex_store)" by (simp add: ex_store_def)
  have 2: "username alice = trim (toString (dup_username_form ''username''))"
    by (simp add: dup_username_form_def alice_def form_def string_defs)
  have 3: "register_errors ex_libs dup_username_form = []"
    by (simp add: register_errors_def dup_username_form_def form_def ex_libs_def string_defs)
  have 4: "sanitized_email ex_libs dup_username_form \<noteq> None"
    by (simp add: sanitized_email_def ex_libs_def)
  have 5: "\<not> no_fault 1" by (simp add: no_fault_def)
  have 6: "username alice = trim (toString (dup_username_form ''username'')) \<or>
      (\<exists>em. sanitized_email ex_libs dup_username_form = Some em \<and> email alice = trim em)"
    using 2 by (rule disjI1)
  from register_conflict[OF 1 6, of ex_env no_fault None] ex_session_none 3 4 5
  have "db (post_register ex_env ex_libs no_fault ex_store None dup_username_form) = ex_store"
    and "post_register ex_env ex_libs no_fault ex_store None dup_username_form =
     register_failed ex_libs ex_store None dup_username_form
       ''Username or email already exists. Please choose different ones.''"
    by blast+
  with 1 2 show ?thesis by simp
qed

text \<open>
  Claim C6 at a failing input. The username \<^verbatim>\<open>alice\<close> is taken and every field passes
  validation, but the normalizer returns \<^verbatim>\<open>false\<close> for the email
  \<^verbatim>\<open>+foo@gmail.com\<close>: \<^verbatim>\<open>email.trim()\<close> throws before the lookup is made, and the
  \<^verbatim>\<open>catch\<close> block answers with the general registration error instead of the
  conflict message. No user is created.
\<close>

theorem register_conflict_normalizer_false:
  "alice \<in> set (users ex_store) \<and>
   username alice = trim (toString (dup_username_gmail_form ''username'')) \<and>
   register_errors gmail_libs dup_username_gmail_form = [] \<and>
   sanitized_email gmail_libs dup_username_gmail_form = None \<and>
   post_register ex_env gmail_libs no_fault ex_store None dup_username_gmail_form =
     register_failed gmail_libs ex_store None dup_username_gmail_form
       ''An error occurred during registration. Please try again.'' \<and>
   register_failed gmail_libs ex_store None dup_username_gmail_form
       ''An error occurred during registration. Please try again.'' \<noteq>
     register_failed gmail_libs ex_store None dup_username_gmail_form
       ''Username or email already exists. Please choose different ones.''"
  by (simp add: post_register_def post_register_route_def session_defs register_errors_def
        sanitized_email_def register_failed_def dup_username_gmail_form_def string_defs ex_defs)

section \<open>Membership promotion\<close>

lemma promote_succeeds:
  assumes "passport_session fault s sess = Inr (Some u, sess')"
      and "MEMBER_SECRET_CODE E = Some (trim (toString (b ''secret_code'')))"
      and "trim (toString (b ''secret_code'')) \<noteq> []"
      and "\<not> fault 1"
  shows "post_become_member E fault s sess b =
           reply (s\<lparr>users := map (\<lambda>v. if user_id v = user_id u then v\<lparr>is_member := True\<rparr> else v)
                                (users s)\<rparr>)
             sess' [(''successMessage'', Msg ''Congratulations! You are now a full member.'')]
             (Redirect ''/messages'')"
proof -
  from assms(1) have "u \<in> set (users s)" by (rule passport_session_Some)
  then have "list_ex (\<lambda>v. user_id v = user_id u) (users s)" by (auto simp: list_ex_iff)
  with assms show ?thesis
    by (simp add: post_become_member_def app_resolved post_become_member_route_def
          ensureLoggedIn_def user_update_member_def isLength_def Suc_le_eq)
qed

lemma promote_member_noop:
  assumes "u \<in> set us" and "is_member u" and "distinct (map user_id us)"
  shows "map (\<lambda>v. if user_id v = user_id u then v\<lparr>is_member := True\<rparr> else v) us = us"
proof -
  have "(if user_id v = user_id u then v\<lparr>is_member := True\<rparr> else v) = v" if "v \<in> set us" for v
  proof (cases "user_id v = user_id u")
    case True
    with assms(1,3) that have "v = u" by (meson distinct_map inj_onD)
    with assms(2) show ?thesis by simp
  next
    case False
    then show ?thesis by simp
  qed
  then show ?thesis by (simp add: map_idI)
qed

lemma find_promoted:
  "find (\<lambda>v. user_id v = i) (map (\<lambda>v. if user_id v = j then v\<lparr>is_member := True\<rparr> else v) us) =
   map_option (\<lambda>v. if user_id v = j then v\<lparr>is_member := True\<rparr> else v)
     (find (\<lambda>v. user_id v = i) us)"
  by (induction us) auto

lemma session_after_promotion:
  assumes "passport_session fault s sess = Inr (Some u, sess')"
  shows "passport_session fault
           (s\<lparr>users := map (\<lambda>v. if user_id v = user_id u then v\<lparr>is_member := True\<rparr> else v)
                          (users s)\<rparr>) sess
         = Inr (Some (u\<lparr>is_member := True\<rparr>), sess')"
proof -
  note r = passport_session_Some[OF assms]
  from assms have "\<not> fault 0"
    by (auto simp: passport_session_def deserializeUser_def user_findUnique_def
          split: option.splits if_splits)
  with r show ?thesis
    by (simp add: passport_session_def deserializeUser_def user_findUnique_def find_promoted)
qed

text \<open>
  Claim C7. Let an authenticated principal submit the member secret (non-empty, as it is
  after trimming) while the store answers the update. If the principal is already a member
  (user identifiers being distinct, as the primary key makes them), the request succeeds and
  the store is unchanged. For any principal, a second such request after the first succeeds
  as well and leaves the store of the first unchanged, and the principal resolved from that
  store is a member.
\<close>

theorem promotion_idempotent:
  assumes "passport_session fault s sess = Inr (Some u, sess')"
      and "MEMBER_SECRET_CODE E = Some (trim (toString (b ''secret_code'')))"
      and "trim (toString (b ''secret_code'')) \<noteq> []"
      and "\<not> fault 1"
  shows "(is_member u \<and> distinct (map user_id (users s)) \<longrightarrow>
            post_become_member E fault s sess b =
              reply s sess' [(''successMessage'', Msg ''Congratulations! You are now a full member.'')]
                (Redirect ''/messages'')) \<and>
         post_become_member E fault (db (post_become_member E fault s sess b)) sess b =
           reply (db (post_become_member E fault s sess b)) sess'
             [(''successMessage'', Msg ''Congratulations! You are now a full member.'')]
             (Redirect ''/messages'') \<and>
         passport_session fault (db (post_become_member E fault s sess b)) sess =
           Inr (Some (u\<lparr>is_member := True\<rparr>), sess')"
proof (intro conjI impI)
  assume m: "is_member u \<and> distinct (map user_id (users s))"
  from assms(1) have "u \<in> set (users s)" by (rule passport_session_Some)
  with m have "map (\<lambda>v. if user_id v = user_id u then v\<lparr>is_member := True\<rparr> else v) (users s)
                 = users s"
    by (simp add: promote_member_noop)
  then show "post_become_member E fault s sess b =
      reply s sess' [(''successMessage'', Msg ''Congratulations! You are now a full member.'')]
        (Redirect ''/messages'')"
    by (simp add: promote_succeeds[where b = b, OF assms])
next
  let ?f = "\<lambda>v. if user_id v = user_id u then v\<lparr>is_member := True\<rparr> else v"
  let ?s1 = "s\<lparr>users := map ?f (users s)\<rparr>"
  have s1: "db (post_become_member E fault s sess b) = ?s1"
    by (simp add: promote_succeeds[where b = b, OF assms] reply_def)
  have sess1: "passport_session fault ?s1 sess = Inr (Some (u\<lparr>is_member := True\<rparr>), sess')"
    using assms(1) by (rule session_after_promotion)
  have idem: "?f \<circ> ?f = ?f" by (auto simp: fun_eq_iff)
  show "post_become_member E fault (db (post_become_member E fault s sess b)) sess b =
      reply (db (post_become_member E fault s sess b)) sess'
        [(''successMessage'', Msg ''Congratulations! You are now a full member.'')]
        (Redirect ''/messages'')"
    unfolding s1 by (simp add: promote_succeeds[where b = b, OF sess1 assms(2-4)] idem)
  show "passport_session fault (db (post_become_member E fault s sess b)) sess =
           Inr (Some (u\<lparr>is_member := True\<rparr>), sess')"
    unfolding s1 by (rule sess1)
qed

theorem promotion_idempotent_witness:
  "is_member alice \<and> distinct (map user_id (users ex_store)) \<and>
   post_become_member ex_env no_fault ex_store (Some 1) (form [(''secret_code'', ''abc'')]) =
     reply ex_store (Some 1)
       [(''successMessage'', Msg ''Congratulations! You are now a full member.'')]
       (Redirect ''/messages'')"
proof -
  have 1: "MEMBER_SECRET_CODE ex_env = Some (trim (toString (form [(''secret_code'', ''abc'')] ''secret_code'')))"
    by (simp add: ex_env_def form_def string_defs)
  have 2: "trim (toString (form [(''secret_code'', ''abc'')] ''secret_code'')) \<noteq> []"
    by (simp add: form_def string_defs)
  have 3: "\<not> no_fault 1" by (simp add: no_fault_def)
  have 4: "is_member alice \<and> distinct (map user_id (users ex_store))"
    by (simp add: ex_defs)
  from promotion_idempotent[where b = "form [(''secret_code'', ''abc'')]", OF ex_session_alice 1 2 3] 4
  show ?thesis by blast
qed

text \<open>
  Claim C8, as amended. For an authenticated principal, the promotion request is answered
  with the incorrect-passcode message exactly when the submitted code, after trimming
  whitespace at both ends, is not empty and differs from the member secret of the
  environment as a string; and every code that is empty after trimming is answered with
  the message that a passcode is required.
\<close>

theorem incorrect_code_iff:
  assumes "passport_session fault s sess = Inr (Some u, sess')"
  shows "(post_become_member E fault s sess b =
            reply s sess' [(''error'', Msg ''Incorrect passcode. Please try again.'')]
              (Redirect ''/become-member'')
          \<longleftrightarrow> trim (toString (b ''secret_code'')) \<noteq> [] \<and>
              Some (trim (toString (b ''secret_code''))) \<noteq> MEMBER_SECRET_CODE E) \<and>
         (trim (toString (b ''secret_code'')) = [] \<longrightarrow>
            post_become_member E fault s sess b =
              reply s sess' [(''error'', Msg ''Passcode is required'')]
                (Redirect ''/become-member''))"
proof -
  have route: "post_become_member E fault s sess b =
      post_become_member_route E fault s (Some u) sess' b"
    using assms by (simp add: post_become_member_def app_resolved)
  show ?thesis
    unfolding route
    by (cases "user_update_member (fault 1) s (user_id u)")
       (simp_all add: post_become_member_route_def ensureLoggedIn_def isLength_def Suc_le_eq
          reply_def Let_def)
qed

theorem incorrect_code_iff_witness:
  "post_become_member ex_env no_fault ex_store (Some 2) (form [(''secret_code'', ''abd'')]) =
     reply ex_store (Some 2) [(''error'', Msg ''Incorrect passcode. Please try again.'')]
       (Redirect ''/become-member'') \<and>
   post_become_member ex_env no_fault ex_store (Some 2) (form [(''secret_code'', '' abc '')]) \<noteq>
     reply ex_store (Some 2) [(''error'', Msg ''Incorrect passcode. Please try again.'')]
       (Redirect ''/become-member'') \<and>
   trim (toString (form [(''secret_code'', ''   '')] ''secret_code'')) = [] \<and>
   post_become_member ex_env no_fault ex_store (Some 2) (form [(''secret_code'', ''   '')]) =
     reply ex_store (Some 2) [(''error'', Msg ''Passcode is required'')]
       (Redirect ''/become-member'')"
  using incorrect_code_iff[OF ex_session_obrien, of ex_env "form [(''secret_code'', ''abd'')]"]
    incorrect_code_iff[OF ex_session_obrien, of ex_env "form [(''secret_code'', '' abc '')]"]
    incorrect_code_iff[OF ex_session_obrien, of ex_env "form [(''secret_code'', ''   '')]"]
  by (simp add: ex_env_def form_def string_defs)

text \<open>
  Claim C8 as stated fails in both directions: the submitted code \<^verbatim>\<open>" abc "\<close> is not the
  secret \<^verbatim>\<open>"abc"\<close> under string comparison, yet the principal is promoted; and a code of
  three spaces is not the secret either, yet the answer is that a passcode is required,
  not that the passcode is incorrect.
\<close>

theorem padded_code_accepted:
  "form [(''secret_code'', '' abc '')] ''secret_code'' = Some '' abc '' \<and>
   MEMBER_SECRET_CODE ex_env = Some ''abc'' \<and>
   '' abc '' \<noteq> ''abc'' \<and>
   post_become_member ex_env no_fault ex_store (Some 2) (form [(''secret_code'', '' abc '')]) =
     reply (ex_store\<lparr>users := [alice, obrien\<lparr>is_member := True\<rparr>, ruth]\<rparr>) (Some 2)
       [(''successMessage'', Msg ''Congratulations! You are now a full member.'')]
       (Redirect ''/messages'') \<and>
   form [(''secret_code'', ''   '')] ''secret_code'' \<noteq> MEMBER_SECRET_CODE ex_env \<and>
   post_become_member ex_env no_fault ex_store (Some 2) (form [(''secret_code'', ''   '')]) =
     reply ex_store (Some 2) [(''error'', Msg ''Passcode is required'')] (Redirect ''/become-member'')"
  by (simp add: post_become_member_def post_become_member_route_def session_defs
        user_update_member_def string_defs ex_defs)

section \<open>Deleting messages\<close>

lemma parseInt_NaN_iff:
  "parseInt p = NaN \<longleftrightarrow>
     (case dropWhile is_space p of
        [] \<Rightarrow> True
      | c # r \<Rightarrow>
          if c = CHR ''-'' \<or> c = CHR ''+'' then (case r of [] \<Rightarrow> True | d # _ \<Rightarrow> \<not> is_digit d)
          else \<not> is_digit c)"
proof -
  define t where "t = dropWhile is_space p"
  show ?thesis
    unfolding parseInt_def Let_def t_def[symmetric]
    by (cases t) (auto simp: takeWhile_eq_Nil_iff split: list.splits)
qed




section \<open>The identifier of a login\<close>

text \<open>
  Claim C10. A login whose fields pass validation looks up the submitted identifier after
  trimming and HTML escaping: the outcome is decided by the first user whose username or
  email equals the escaped string. When the trimmed identifier contains an HTML-special
  character, the escaped string differs from it, so a stored email with such a character
  is compared with a different string.
\<close>

theorem login_looks_up_escaped:
  assumes "passport_session fault s sess = Inr (ru, sess')"
      and "login_errors b = []"
      and "\<not> fault 1"
  shows "post_login E L fault s sess b =
           (case find (\<lambda>u. username u = escape (trim (toString (b ''username''))) \<or>
                            email u = escape (trim (toString (b ''username'')))) (users s) of
              None \<Rightarrow> reply s sess' [(''error'', Msg ''User not found'')] (Redirect ''/login'')
            | Some u \<Rightarrow>
                if \<not> bcrypt_compare L (toString (b ''password'')) (password u)
                then reply s sess' [(''error'', Msg ''Invalid password'')] (Redirect ''/login'')
                else if fault 2
                then reply s sess' [(''error'', Msg ''An error occurred during login.'')]
                       (Redirect ''/login'')
                else reply s (Some (user_id u)) [(''successMessage'', Msg ''Login successful!'')]
                       (Redirect ''/messages'')) \<and>
         (list_ex html_special (trim (toString (b ''username''))) \<longrightarrow>
            escape (trim (toString (b ''username''))) \<noteq> trim (toString (b ''username'')))"
proof
  show "post_login E L fault s sess b =
           (case find (\<lambda>u. username u = escape (trim (toString (b ''username''))) \<or>
                            email u = escape (trim (toString (b ''username'')))) (users s) of
              None \<Rightarrow> reply s sess' [(''error'', Msg ''User not found'')] (Redirect ''/login'')
            | Some u \<Rightarrow>
                if \<not> bcrypt_compare L (toString (b ''password'')) (password u)
                then reply s sess' [(''error'', Msg ''Invalid password'')] (Redirect ''/login'')
                else if fault 2
                then reply s sess' [(''error'', Msg ''An error occurred during login.'')]
                       (Redirect ''/login'')
                else reply s (Some (user_id u)) [(''successMessage'', Msg ''Login successful!'')]
                       (Redirect ''/messages''))"
    using assms login_ok_fields[OF assms(2)]
    by (simp add: post_login_def app_resolved post_login_route_def local_authenticate_def
          verify_def user_findFirst_def serializeUser_def split: option.splits)
next
  show "list_ex html_special (trim (toString (b ''username''))) \<longrightarrow>
            escape (trim (toString (b ''username''))) \<noteq> trim (toString (b ''username''))"
    using special_escape_longer[of "trim (toString (b ''username''))"] by auto
qed

theorem login_looks_up_escaped_witness:
  "email obrien = trim (toString (obrien_login ''username'')) \<and>
   bcrypt_compare ex_libs (toString (obrien_login ''password'')) (password obrien) \<and>
   list_ex html_special (trim (toString (obrien_login ''username''))) \<and>
   escape (trim (toString (obrien_login ''username''))) = ''o&#x27;brien@x.com'' \<and>
   post_login ex_env ex_libs no_fault ex_store None obrien_login =
     reply ex_store None [(''error'', Msg ''User not found'')] (Redirect ''/login'')"
proof -
  have 1: "login_errors obrien_login = []"
    by (simp add: login_errors_def obrien_login_def form_def string_defs)
  have 2: "\<not> no_fault 1" by (simp add: no_fault_def)
  have 3: "escape (trim (toString (obrien_login ''username''))) = ''o&#x27;brien@x.com''"
    by (simp add: obrien_login_def form_def string_defs escape_def)
  have 4: "find (\<lambda>u. username u = ''o&#x27;brien@x.com'' \<or> email u = ''o&#x27;brien@x.com'')
             (users ex_store) = None"
    by (simp add: ex_defs)
  have 5: "email obrien = trim (toString (obrien_login ''username''))"
    "bcrypt_compare ex_libs (toString (obrien_login ''password'')) (password obrien)"
    "list_ex html_special (trim (toString (obrien_login ''username'')))"
    by (simp_all add: obrien_login_def ex_defs string_defs html_special_def)
  from login_looks_up_escaped[OF ex_session_none 1 2, of ex_env ex_libs] 3 4 5
  show ?thesis by simp
qed

end
